theory Spec2Isabelle
  imports Complex_Main
begin

section \<open>Outcomes of a call\<close>

text \<open>
  A call of a Python method either returns a value, raises an exception, or never comes
  back because it recurses without a base case. The three are kept apart:
  \<open>Some (Inr x)\<close> is a normal return of \<open>x\<close>, \<open>Some (Inl e)\<close> is the exception
  \<open>e\<close>, and \<open>None\<close> is a call whose recursion is unbounded. The interpreter cuts
  such a call off with an exception of its own (\<open>RecursionError\<close> at its stack limit,
  or \<open>OverflowError\<close> if an argument that grows from call to call leaves the range of
  floats first); either way no value is returned, no statement after the call runs and
  the object is as it was.

  \<open>ZeroDivisionError\<close> is what Python raises for \<open>x / 0\<close> and \<open>x / 0.0\<close>.
  \<open>DomainError\<close> is the error the specification names for a zero-width range; the
  sources contain no such class and raise it nowhere. It is part of the type only so that
  statements can speak about it.
\<close>

datatype error = ZeroDivisionError | DomainError

type_synonym 'a outcome = "(error + 'a) option"

abbreviation and_then :: "'a outcome \<Rightarrow> ('a \<Rightarrow> 'b outcome) \<Rightarrow> 'b outcome" where
  "and_then m f \<equiv> Option.bind m (case_sum (\<lambda>e. Some (Inl e)) f)"

text \<open>
  Python floats are modelled by the reals: the arithmetic below is exact. \<open>py_div\<close> is
  the \<open>/\<close> operator, which raises on a zero divisor; \<open>py_int\<close> is \<open>int(x)\<close> on a
  float, which truncates towards zero.
\<close>

definition py_div :: "real \<Rightarrow> real \<Rightarrow> error + real" where
  "py_div x y = (if y = 0 then Inl ZeroDivisionError else Inr (x / y))"

definition py_int :: "real \<Rightarrow> int" where
  "py_int x = (if 0 \<le> x then \<lfloor>x\<rfloor> else \<lceil>x\<rceil>)"


section \<open>\<open>gui_elements.DoubleSlider\<close>\<close>

text \<open>
  The state of a \<open>DoubleSlider\<close>: the three attributes the class assigns
  (\<open>_max_int\<close>, \<open>_min_value\<close>, \<open>_max_value\<close>) and the integer position stored by the
  \<open>QSlider\<close> base object, here \<open>raw_position\<close>. The class overrides \<open>value\<close>,
  \<open>setValue\<close>, \<open>setMinimum\<close>, \<open>setMaximum\<close> and \<open>setRange\<close> and calls none of the
  base implementations, so no method below reads or writes \<open>raw_position\<close>.
  The record describes an object on which all three attributes are assigned.
\<close>

record slider =
  raw_position :: int
  max_int :: int
  min_value :: real
  max_value :: real

text \<open>\<^verbatim>\<open>return self._max_value - self._min_value\<close>\<close>

definition value_range :: "slider \<Rightarrow> real" where
  "value_range s = max_value s - min_value s"

text \<open>
  \<^verbatim>\<open>return float(self.value()) / self._max_int * self._value_range\<close>

  \<open>self.value()\<close> is looked up on the object and so is this very method: the call
  comes first, the division and the product follow it.
\<close>

partial_function (option) "value" :: "slider \<Rightarrow> real outcome" where
  "value s =
     and_then (value s) (\<lambda>v.
       case py_div v (real_of_int (max_int s)) of
         Inl e \<Rightarrow> Some (Inl e)
       | Inr q \<Rightarrow> Some (Inr (q * value_range s)))"

text \<open>
  \<^verbatim>\<open>self.setValue(int(value / self._value_range * self._max_int))\<close>

  The argument is evaluated first (the division may raise), then the method calls itself
  with the integer it obtained.
\<close>

partial_function (option) setValue :: "slider \<Rightarrow> real \<Rightarrow> slider outcome" where
  "setValue s v =
     (case py_div v (value_range s) of
        Inl e \<Rightarrow> Some (Inl e)
      | Inr q \<Rightarrow> setValue s (real_of_int (py_int (q * real_of_int (max_int s)))))"

text \<open>
  \<^verbatim>\<open>
  old_value = self.value()
  self._min_value = minimum
  self._max_value = maximum
  self.setValue(old_value)
  \<close>
\<close>

definition setRange :: "slider \<Rightarrow> real \<Rightarrow> real \<Rightarrow> slider outcome" where
  "setRange s minimum maximum =
     and_then (value s) (\<lambda>old_value.
       setValue (s\<lparr>min_value := minimum, max_value := maximum\<rparr>) old_value)"

definition setMinimum :: "slider \<Rightarrow> real \<Rightarrow> slider outcome" where
  "setMinimum s v = setRange s v (max_value s)"

definition setMaximum :: "slider \<Rightarrow> real \<Rightarrow> slider outcome" where
  "setMaximum s v = setRange s (min_value s) v"

text \<open>\<^verbatim>\<open>return (self.value() - self._min_value) / self._value_range\<close>\<close>

definition proportion :: "slider \<Rightarrow> real outcome" where
  "proportion s =
     and_then (value s) (\<lambda>v. Some (py_div (v - min_value s) (value_range s)))"

text \<open>
  For comparison, the value the specification gives for \<open>get_value()\<close>, in its words:
  \<open>raw_position / resolution * (max_value - min_value) + min_value\<close>, the resolution
  being \<open>_max_int\<close>. This definition is not taken from the code.
\<close>

definition spec_get_value :: "slider \<Rightarrow> real" where
  "spec_get_value s =
     real_of_int (raw_position s) / real_of_int (max_int s) * (max_value s - min_value s)
       + min_value s"

text \<open>
  Three states used below. \<open>initial_slider\<close> carries the attribute values assigned in
  \<open>__init__\<close> with the position at 0; \<open>halfway_slider\<close> is the same slider at position
  5000, the position standing for the value 50 on the range 0 to 100;
  \<open>flat_slider\<close> has both bounds at 5.
\<close>

definition initial_slider :: slider where
  "initial_slider = \<lparr>raw_position = 0, max_int = 10000, min_value = 0, max_value = 100\<rparr>"

definition halfway_slider :: slider where
  "halfway_slider = \<lparr>raw_position = 5000, max_int = 10000, min_value = 0, max_value = 100\<rparr>"

definition flat_slider :: slider where
  "flat_slider = \<lparr>raw_position = 0, max_int = 10000, min_value = 5, max_value = 5\<rparr>"


section \<open>\<open>messaging.Failure\<close> and \<open>messaging.Success\<close>\<close>

text \<open>
  Both classes derive from \<open>int\<close>. An instance is modelled by its class, the integer it
  holds and its \<open>_message\<close> attribute; \<open>None\<close> is Python's \<open>None\<close>.
\<close>

datatype result_class = FailureClass | SuccessClass

record result_obj =
  cls :: result_class
  int_value :: int
  message :: "string option"

text \<open>
  \<open>__new__\<close> builds the integer from \<open>bool(0)\<close> or \<open>bool(1)\<close>, \<open>__init__\<close> stores the
  message, whose default is \<open>None\<close>.
\<close>

definition Failure :: "string option \<Rightarrow> result_obj" where
  "Failure msg = \<lparr>cls = FailureClass, int_value = of_bool False, message = msg\<rparr>"

definition Success :: "string option \<Rightarrow> result_obj" where
  "Success msg = \<lparr>cls = SuccessClass, int_value = of_bool True, message = msg\<rparr>"

text \<open>
  Truth of an instance. Neither class defines \<open>__bool__\<close>, so \<open>bool(x)\<close>, \<open>if x\<close>,
  \<open>not x\<close>, \<open>and\<close> and \<open>or\<close> all use the one inherited from \<open>int\<close>: the held integer
  is not zero. \<open>nonzero\<close> is the \<open>__nonzero__\<close> method each class writes out.
\<close>

definition truthy :: "result_obj \<Rightarrow> bool" where
  "truthy r = (int_value r \<noteq> 0)"

definition nonzero :: "result_obj \<Rightarrow> bool" where
  "nonzero r = (case cls r of FailureClass \<Rightarrow> False | SuccessClass \<Rightarrow> True)"

text \<open>The \<open>message\<close> setter.\<close>

definition set_message :: "result_obj \<Rightarrow> string option \<Rightarrow> result_obj" where
  "set_message r v = r\<lparr>message := v\<rparr>"


section \<open>\<open>gui_elements.Group\<close>\<close>

text \<open>
  An object of the toolkit handed to a method (a layout or a widget). What the methods
  below look at is only whether the argument is true in a condition: \<open>None\<close> is false, and
  for an object the toolkit decides; \<open>obj_truth\<close> records that answer.
\<close>

record qobject =
  obj_id :: nat
  obj_truth :: bool

datatype child = Layout qobject | Widget qobject

text \<open>
  The state of a \<open>Group\<close> as far as the four methods touch it: \<open>_insert\<close> (the prefix
  of its diagnostics), the title of the group box, the text of its label and what the
  toolkit holds in \<open>_widget_container\<close>, in order.
\<close>

record group =
  insert_prefix :: string
  title :: string
  label_text :: string
  widget_container :: "child list"

text \<open>
  What a call leaves behind: the object it returns, the group afterwards, and the lines it
  passed to \<open>self._log.error\<close>.
\<close>

record reply =
  returned :: result_obj
  group_after :: group
  logged :: "string list"

definition obj_truthy :: "qobject option \<Rightarrow> bool" where
  "obj_truthy arg = (case arg of None \<Rightarrow> False | Some ob \<Rightarrow> obj_truth ob)"

text \<open>A string is true in a condition when it is not empty.\<close>

definition str_truthy :: "string option \<Rightarrow> bool" where
  "str_truthy arg = (case arg of None \<Rightarrow> False | Some t \<Rightarrow> t \<noteq> [])"

text \<open>
  \<^verbatim>\<open>
  if layout:
      self._widget_container.addLayout(layout)
      return Success()
  else:
      msg = "{0}add_layout(): layout Argument missing".format(self._insert)
      self._log.error(msg)
      return Failure(msg)
  \<close>

  \<open>addLayout\<close> and \<open>addWidget\<close> are methods of the toolkit, not of these sources.
  What they make of the container is not decided here (the toolkit may take the object
  in, refuse it, or move it), so each is a parameter: \<open>qt_addLayout items ob\<close> is what
  the container holds after \<open>addLayout(ob)\<close> was called on a container holding
  \<open>items\<close>. The method does not look at what the call did: it returns \<open>Success()\<close>
  after it.
\<close>

definition add_layout ::
  "(child list \<Rightarrow> qobject \<Rightarrow> child list) \<Rightarrow> group \<Rightarrow> qobject option \<Rightarrow> reply" where
  "add_layout qt_addLayout g layout =
     (if obj_truthy layout
      then \<lparr>returned = Success None,
            group_after =
              g\<lparr>widget_container := qt_addLayout (widget_container g) (the layout)\<rparr>,
            logged = []\<rparr>
      else let msg = insert_prefix g @ ''add_layout(): layout Argument missing''
           in \<lparr>returned = Failure (Some msg), group_after = g, logged = [msg]\<rparr>)"

definition add_widget ::
  "(child list \<Rightarrow> qobject \<Rightarrow> child list) \<Rightarrow> group \<Rightarrow> qobject option \<Rightarrow> reply" where
  "add_widget qt_addWidget g widget =
     (if obj_truthy widget
      then \<lparr>returned = Success None,
            group_after =
              g\<lparr>widget_container := qt_addWidget (widget_container g) (the widget)\<rparr>,
            logged = []\<rparr>
      else let msg = insert_prefix g @ ''add_widget(): widget Argument missing''
           in \<lparr>returned = Failure (Some msg), group_after = g, logged = [msg]\<rparr>)"

text \<open>
  \<^verbatim>\<open>
  if title:
      self.setTitle(title)
      return Success()
  else: ...
  \<close>
\<close>

definition set_title :: "group \<Rightarrow> string option \<Rightarrow> reply" where
  "set_title g new_title =
     (if str_truthy new_title
      then \<lparr>returned = Success None, group_after = g\<lparr>title := the new_title\<rparr>, logged = []\<rparr>
      else let msg = insert_prefix g @ ''set_title(): title Argument missing''
           in \<lparr>returned = Failure (Some msg), group_after = g, logged = [msg]\<rparr>)"

text \<open>
  \<^verbatim>\<open>
  if label or label == '':
      self.label.setText(label)
      return Success()
  else: ...
  \<close>
\<close>

definition set_label :: "group \<Rightarrow> string option \<Rightarrow> reply" where
  "set_label g label =
     (if str_truthy label \<or> label = Some []
      then \<lparr>returned = Success None, group_after = g\<lparr>label_text := the label\<rparr>, logged = []\<rparr>
      else let msg = insert_prefix g @ ''set_label(): label Argument missing''
           in \<lparr>returned = Failure (Some msg), group_after = g, logged = [msg]\<rparr>)"

text \<open>A group named as the module names it, and a widget of the toolkit.\<close>

definition sample_group :: group where
  "sample_group =
     \<lparr>insert_prefix = ''gui_elements.Group.'', title = ''Settings'', label_text = ''more'',
      widget_container = []\<rparr>"

definition sample_object :: qobject where
  "sample_object = \<lparr>obj_id = 1, obj_truth = True\<rparr>"

text \<open>
  Three ways a toolkit may answer, to run the methods on: it takes the layout in at the
  end, it takes the widget in at the end, or it refuses what it is given and leaves the
  container as it was.
\<close>

definition appending_addLayout :: "child list \<Rightarrow> qobject \<Rightarrow> child list" where
  "appending_addLayout items ob = items @ [Layout ob]"

definition appending_addWidget :: "child list \<Rightarrow> qobject \<Rightarrow> child list" where
  "appending_addWidget items ob = items @ [Widget ob]"

definition refusing_add :: "child list \<Rightarrow> qobject \<Rightarrow> child list" where
  "refusing_add items ob = items"


section \<open>Behaviour of the slider methods\<close>

subsection \<open>Shared facts\<close>

lemma value_no_result: "value s = Some y \<Longrightarrow> False"
  by (rule "value.raw_induct" [where P = "\<lambda>_ _. False"]) (auto simp: bind_eq_Some_conv)

lemma value_unbounded: "value s = None"
  using value_no_result [of s] by (cases "value s") auto

lemma setValue_flat: "value_range s = 0 \<Longrightarrow> setValue s v = Some (Inl ZeroDivisionError)"
  by (subst setValue.simps) (simp add: py_div_def)

lemma setValue_result_only_flat:
  "setValue s v = Some y \<Longrightarrow> value_range s = 0 \<and> y = Inl ZeroDivisionError"
  by (rule setValue.raw_induct
        [where P = "\<lambda>s v y. value_range s = 0 \<and> y = Inl ZeroDivisionError"])
     (auto simp: py_div_def split: if_splits sum.splits)

lemma setValue_unbounded: "value_range s \<noteq> 0 \<Longrightarrow> setValue s v = None"
  using setValue_result_only_flat [of s v] by (cases "setValue s v") auto

lemma setRange_unbounded: "setRange s lo hi = None"
  by (simp add: setRange_def value_unbounded)

lemma proportion_unbounded: "proportion s = None"
  by (simp add: proportion_def value_unbounded)


subsection \<open>Reading the value\<close>

text \<open>
  C1. \<open>get_value()\<close> is to return
  \<open>raw_position / resolution * (max_value - min_value) + min_value\<close> for every position
  in \<open>[0, resolution]\<close>. At position 5000 of the range 0 to 100 that is 50, but
  \<open>DoubleSlider.value\<close> calls itself before it computes anything and has no base case:
  the call returns no value.
\<close>

theorem value_halfway_returns_nothing:
  "spec_get_value halfway_slider = 50 \<and> value halfway_slider = None"
  by (simp add: value_unbounded spec_get_value_def halfway_slider_def)

text \<open>
  C7. \<open>get_value()\<close> is to be monotone in the position (rising when
  \<open>max_value > min_value\<close>, falling when \<open>max_value < min_value\<close>). On the range 0 to
  100 the method returns no value at any position \<open>p\<close>, so there are no two results to
  compare.
\<close>

theorem value_returns_nothing_at_any_position:
  "value (initial_slider\<lparr>raw_position := p\<rparr>) = None"
  by (rule value_unbounded)

text \<open>
  C6. \<open>get_proportion()\<close> is to return
  \<open>(get_value() - min_value) / (max_value - min_value)\<close>, a number in \<open>[0, 1]\<close>.
  \<open>DoubleSlider.proportion\<close> is written that way, but its first step is the call of
  \<open>value\<close>, which does not return: at position 5000 of the range 0 to 100, where 0.5 is
  expected, it returns no value.
\<close>

theorem proportion_halfway_returns_nothing: "proportion halfway_slider = None"
  by (rule proportion_unbounded)


subsection \<open>Setting the value\<close>

text \<open>
  C3. On a range that is not flat, \<open>set_value(v)\<close> is to store
  \<open>round((v - min_value) / (max_value - min_value) * resolution)\<close>, clamped into
  \<open>[0, resolution]\<close>. \<open>DoubleSlider.setValue\<close> computes an integer and calls itself with
  it, again and again: for 25 on the range 0 to 100 the call never returns and no position
  is stored.
\<close>

theorem setValue_25_returns_nothing: "setValue initial_slider 25 = None"
  by (rule setValue_unbounded) (simp add: initial_slider_def value_range_def)

text \<open>
  C5. \<open>set_value(v)\<close> followed by \<open>get_value()\<close> is to come back within one
  quantization step of \<open>v\<close>. For 25 on the range 0 to 100 the first call already does not
  return, and the second would not either.
\<close>

theorem set_then_get_25_returns_nothing:
  "and_then (setValue initial_slider 25) value = None \<and>
   and_then (Some (Inr initial_slider)) value = None"
proof -
  have "value_range initial_slider \<noteq> 0"
    by (simp add: initial_slider_def value_range_def)
  then have "setValue initial_slider 25 = None"
    by (rule setValue_unbounded)
  then show ?thesis
    by (simp add: value_unbounded)
qed

text \<open>
  C2 (as amended). When \<open>max_value = min_value\<close>, \<open>set_value\<close> raises the division
  fault itself, \<open>ZeroDivisionError\<close>: the division by the width of the range is not
  guarded and nothing in the sources raises a \<open>DomainError\<close>.
\<close>

theorem setValue_flat_range_raises_ZeroDivisionError:
  "max_value s = min_value s \<Longrightarrow> setValue s v = Some (Inl ZeroDivisionError)"
  by (rule setValue_flat) (simp add: value_range_def)

theorem setValue_flat_range_raises_ZeroDivisionError_witness:
  "max_value flat_slider = min_value flat_slider \<and>
   setValue flat_slider 7 = Some (Inl ZeroDivisionError)"
proof -
  have flat: "max_value flat_slider = min_value flat_slider"
    by (simp add: flat_slider_def)
  show ?thesis
    using flat setValue_flat_range_raises_ZeroDivisionError [OF flat, of 7] by simp
qed

text \<open>
  C2 as written fails: with both bounds at 5, \<open>set_value(5)\<close> lets the division by zero
  through and does not signal a \<open>DomainError\<close>.
\<close>

theorem setValue_flat_counterexample:
  "setValue flat_slider 5 = Some (Inl ZeroDivisionError) \<and>
   setValue flat_slider 5 \<noteq> Some (Inl DomainError)"
  by (simp add: setValue_flat flat_slider_def value_range_def)


subsection \<open>Changing the range\<close>

text \<open>
  C4. \<open>set_range\<close> is to read the value under the old bounds, replace the bounds and
  store the position that keeps the value; it is to succeed always. From the range 0 to
  100 at position 5000 (value 50), \<open>setRange(0, 200)\<close> does not get past reading the old
  value: it returns nothing and replaces no bound.
\<close>

theorem setRange_0_200_returns_nothing: "setRange halfway_slider 0 200 = None"
  by (rule setRange_unbounded)


section \<open>Behaviour of the result objects\<close>

text \<open>
  C8. Whatever the message, a \<open>Success\<close> is true and a \<open>Failure\<close> is false in a
  condition, which is the class chosen at construction (and what the \<open>__nonzero__\<close>
  methods answer); either class built with the message \<open>"ok"\<close> has \<open>.message == "ok"\<close>;
  and a \<open>Failure\<close> built without a message has \<open>.message\<close> equal to \<open>None\<close>.
\<close>

theorem result_truth_and_message:
  "truthy (Success m) \<and> \<not> truthy (Failure m) \<and>
   truthy (Success m) = (cls (Success m) = SuccessClass) \<and>
   truthy (Failure m) = (cls (Failure m) = SuccessClass) \<and>
   nonzero (Success m) \<and> \<not> nonzero (Failure m) \<and>
   message (Success (Some ''ok'')) = Some ''ok'' \<and>
   message (Failure (Some ''ok'')) = Some ''ok'' \<and>
   message (Failure None) = None"
  by (simp add: Success_def Failure_def truthy_def nonzero_def)


section \<open>Behaviour of the group methods\<close>

text \<open>
  C9. \<open>add_layout\<close>, \<open>add_widget\<close> and \<open>set_title\<close>: when the argument is missing
  (\<open>None\<close>, or false in a condition) the method returns a \<open>Failure\<close>, which is false and
  whose \<open>.message\<close> is the diagnostic naming the method and the argument, and the group
  is as it was; the diagnostic is also what is logged. When the argument is there, the
  method performs the update (it hands the layout or widget to the toolkit's
  \<open>addLayout\<close> or \<open>addWidget\<close> on the container, whatever the toolkit is, or sets the
  title), logs nothing and returns a \<open>Success\<close>, which is true.
\<close>

theorem group_argument_convention:
  "(\<not> obj_truthy layout \<longrightarrow>
      returned (add_layout qt_addLayout g layout) =
        Failure (Some (insert_prefix g @ ''add_layout(): layout Argument missing'')) \<and>
      message (returned (add_layout qt_addLayout g layout)) =
        Some (insert_prefix g @ ''add_layout(): layout Argument missing'') \<and>
      \<not> truthy (returned (add_layout qt_addLayout g layout)) \<and>
      group_after (add_layout qt_addLayout g layout) = g \<and>
      logged (add_layout qt_addLayout g layout) =
        [insert_prefix g @ ''add_layout(): layout Argument missing'']) \<and>
   (obj_truthy layout \<longrightarrow>
      returned (add_layout qt_addLayout g layout) = Success None \<and>
      truthy (returned (add_layout qt_addLayout g layout)) \<and>
      group_after (add_layout qt_addLayout g layout) =
        g\<lparr>widget_container := qt_addLayout (widget_container g) (the layout)\<rparr> \<and>
      logged (add_layout qt_addLayout g layout) = []) \<and>
   (\<not> obj_truthy widget \<longrightarrow>
      returned (add_widget qt_addWidget g widget) =
        Failure (Some (insert_prefix g @ ''add_widget(): widget Argument missing'')) \<and>
      message (returned (add_widget qt_addWidget g widget)) =
        Some (insert_prefix g @ ''add_widget(): widget Argument missing'') \<and>
      \<not> truthy (returned (add_widget qt_addWidget g widget)) \<and>
      group_after (add_widget qt_addWidget g widget) = g \<and>
      logged (add_widget qt_addWidget g widget) =
        [insert_prefix g @ ''add_widget(): widget Argument missing'']) \<and>
   (obj_truthy widget \<longrightarrow>
      returned (add_widget qt_addWidget g widget) = Success None \<and>
      truthy (returned (add_widget qt_addWidget g widget)) \<and>
      group_after (add_widget qt_addWidget g widget) =
        g\<lparr>widget_container := qt_addWidget (widget_container g) (the widget)\<rparr> \<and>
      logged (add_widget qt_addWidget g widget) = []) \<and>
   (\<not> str_truthy t \<longrightarrow>
      returned (set_title g t) =
        Failure (Some (insert_prefix g @ ''set_title(): title Argument missing'')) \<and>
      message (returned (set_title g t)) =
        Some (insert_prefix g @ ''set_title(): title Argument missing'') \<and>
      \<not> truthy (returned (set_title g t)) \<and>
      group_after (set_title g t) = g \<and>
      logged (set_title g t) = [insert_prefix g @ ''set_title(): title Argument missing'']) \<and>
   (str_truthy t \<longrightarrow>
      returned (set_title g t) = Success None \<and>
      truthy (returned (set_title g t)) \<and>
      group_after (set_title g t) = g\<lparr>title := the t\<rparr> \<and>
      logged (set_title g t) = [])"
  by (simp add: add_layout_def add_widget_def set_title_def Let_def
        Success_def Failure_def truthy_def)

theorem group_argument_convention_witness:
  "\<not> obj_truthy None \<and> \<not> str_truthy None \<and>
   message (returned (add_layout appending_addLayout sample_group None)) =
     Some ''gui_elements.Group.add_layout(): layout Argument missing'' \<and>
   \<not> truthy (returned (add_layout appending_addLayout sample_group None)) \<and>
   group_after (add_layout appending_addLayout sample_group None) = sample_group \<and>
   message (returned (add_widget appending_addWidget sample_group None)) =
     Some ''gui_elements.Group.add_widget(): widget Argument missing'' \<and>
   \<not> truthy (returned (add_widget appending_addWidget sample_group None)) \<and>
   group_after (add_widget appending_addWidget sample_group None) = sample_group \<and>
   message (returned (set_title sample_group None)) =
     Some ''gui_elements.Group.set_title(): title Argument missing'' \<and>
   \<not> truthy (returned (set_title sample_group None)) \<and>
   group_after (set_title sample_group None) = sample_group \<and>
   obj_truthy (Some sample_object) \<and> str_truthy (Some ''Tools'') \<and>
   truthy (returned (add_layout appending_addLayout sample_group (Some sample_object))) \<and>
   widget_container
     (group_after (add_layout appending_addLayout sample_group (Some sample_object))) =
     [Layout sample_object] \<and>
   truthy (returned (add_widget appending_addWidget sample_group (Some sample_object))) \<and>
   widget_container
     (group_after (add_widget appending_addWidget sample_group (Some sample_object))) =
     [Widget sample_object] \<and>
   truthy (returned (add_layout refusing_add sample_group (Some sample_object))) \<and>
   widget_container
     (group_after (add_layout refusing_add sample_group (Some sample_object))) = [] \<and>
   truthy (returned (set_title sample_group (Some ''Tools''))) \<and>
   title (group_after (set_title sample_group (Some ''Tools''))) = ''Tools''"
proof -
  have absent: "\<not> obj_truthy None" "\<not> str_truthy None"
    by (simp_all add: obj_truthy_def str_truthy_def)
  have given: "obj_truthy (Some sample_object)" "str_truthy (Some ''Tools'')"
    by (simp_all add: obj_truthy_def str_truthy_def sample_object_def)
  have prefix: "insert_prefix sample_group = ''gui_elements.Group.''"
    and empty: "widget_container sample_group = []"
    by (simp_all add: sample_group_def)
  show ?thesis
    using absent given
      group_argument_convention
        [where layout = None and widget = None and t = None and g = sample_group
           and qt_addLayout = appending_addLayout and qt_addWidget = appending_addWidget]
      group_argument_convention
        [where layout = "Some sample_object" and widget = "Some sample_object"
           and t = "Some ''Tools''" and g = sample_group
           and qt_addLayout = appending_addLayout and qt_addWidget = appending_addWidget]
      group_argument_convention
        [where layout = "Some sample_object" and widget = "Some sample_object"
           and t = "Some ''Tools''" and g = sample_group
           and qt_addLayout = refusing_add and qt_addWidget = refusing_add]
    by (auto simp add: prefix empty appending_addLayout_def appending_addWidget_def
          refusing_add_def)
qed

text \<open>
  C10. The empty string is not treated alike by the two setters: \<open>set_title("")\<close>
  returns a \<open>Failure\<close> with the diagnostic of a missing title and leaves the group as it
  was, while \<open>set_label("")\<close> returns a \<open>Success\<close> and makes the label text empty.
\<close>

theorem empty_string_title_fails_label_succeeds:
  "returned (set_title g (Some [])) =
     Failure (Some (insert_prefix g @ ''set_title(): title Argument missing'')) \<and>
   \<not> truthy (returned (set_title g (Some []))) \<and>
   group_after (set_title g (Some [])) = g \<and>
   returned (set_label g (Some [])) = Success None \<and>
   truthy (returned (set_label g (Some []))) \<and>
   group_after (set_label g (Some [])) = g\<lparr>label_text := []\<rparr>"
  by (simp add: set_title_def set_label_def str_truthy_def Let_def
        Success_def Failure_def truthy_def)

end
